theory Spec2Isabelle
  imports Complex_Main
begin

section \<open>The vehicle program: actuation trace and sensor inputs\<close>

text \<open>
  The program of \<^verbatim>\<open>Code/WRO_2025_Future_Engineers_Code.py\<close> talks to the hub's motors
  and sensors. Every actuation call and every sleep is recorded, in order, in a trace;
  the colour sensor is a feed of readings, one consumed by each call of \<^verbatim>\<open>get_rgb\<close>.
  Durations written as decimal literals in seconds (\<^verbatim>\<open>0.90\<close>, \<^verbatim>\<open>0.60\<close>) are kept as the
  rational the literal denotes.
\<close>

datatype action =
    RunAtSpeed int
  | Brake
  | SteerTo int int
  | ProbeTo int int
  | Sleep rat
  | SleepMs int
  | Print string

text \<open>What \<^verbatim>\<open>dev_color.get()\<close> gave: \<open>None\<close> when the read or the conversion raised.\<close>

type_synonym rgb_raw = "(int \<times> int \<times> int) option"

record world =
  trace :: "action list"
  color_in :: "nat \<Rightarrow> rgb_raw"
  color_at :: nat

text \<open>What \<^verbatim>\<open>dev_front.get()\<close> or \<^verbatim>\<open>dev_side.get()\<close> gave.\<close>

datatype dist_raw = GetRaises | GetNone | FirstNone | FirstIs int

definition emit :: "action \<Rightarrow> world \<Rightarrow> world" where
  "emit a w = w\<lparr>trace := trace w @ [a]\<rparr>"

definition wait_ms :: "int \<Rightarrow> world \<Rightarrow> world" where
  "wait_ms t w = emit (SleepMs t) w"

fun get_front_mm :: "dist_raw \<Rightarrow> int" where
  "get_front_mm GetRaises = 99999"
| "get_front_mm GetNone = 99999"
| "get_front_mm FirstNone = 99999"
| "get_front_mm (FirstIs v) = v"

fun get_side_mm :: "dist_raw \<Rightarrow> int" where
  "get_side_mm GetRaises = 99999"
| "get_side_mm GetNone = 99999"
| "get_side_mm FirstNone = 99999"
| "get_side_mm (FirstIs v) = v"

text \<open>The body of \<^verbatim>\<open>get_rgb\<close> on what the device returned.\<close>

fun read_rgb :: "rgb_raw \<Rightarrow> int \<times> int \<times> int" where
  "read_rgb None = (0, 0, 0)"
| "read_rgb (Some (r, g, b)) = (max 0 r, max 0 g, max 0 b)"

definition get_rgb :: "world \<Rightarrow> (int \<times> int \<times> int) \<times> world" where
  "get_rgb w = (read_rgb (color_in w (color_at w)), w\<lparr>color_at := Suc (color_at w)\<rparr>)"

subsection \<open>Tunables\<close>

definition PROBE_DOWN_DEG :: int where "PROBE_DOWN_DEG = 215"
definition PROBE_UP_DEG :: int where "PROBE_UP_DEG = 301"
definition PROBE_SPEED :: int where "PROBE_SPEED = 600"

definition STEER_SPEED_DPS :: int where "STEER_SPEED_DPS = 600"
definition STEER_RIGHT_TURN :: int where "STEER_RIGHT_TURN = - 45"
definition STEER_LEFT_TURN :: int where "STEER_LEFT_TURN = 45"
definition STEER_RIGHT_SIGN :: int where "STEER_RIGHT_SIGN = - 30"
definition STEER_LEFT_SIGN :: int where "STEER_LEFT_SIGN = 30"
definition STEER_WALL_NUDGE :: int where "STEER_WALL_NUDGE = 15"

definition TURN_90_TIME_S :: rat where "TURN_90_TIME_S = 90 / 100"
definition SIGN_HOLD_S :: rat where "SIGN_HOLD_S = 60 / 100"
definition WALL_NUDGE_S :: rat where "WALL_NUDGE_S = 20 / 100"

definition CRUISE_SPEED_DPS :: int where "CRUISE_SPEED_DPS = 400"
definition PARK_SPEED_DPS :: int where "PARK_SPEED_DPS = 300"

definition CORNER_FRONT_MM :: int where "CORNER_FRONT_MM = 200"
definition CORNER_RIGHT_OPEN :: int where "CORNER_RIGHT_OPEN = 600"
definition CORNER_RIGHT_TIGHT :: int where "CORNER_RIGHT_TIGHT = 200"
definition PILLAR_FRONT_MM :: int where "PILLAR_FRONT_MM = 250"
definition PILLAR_SIDE_CLEAR :: int where "PILLAR_SIDE_CLEAR = 350"
definition WALL_TOO_NEAR_MM :: int where "WALL_TOO_NEAR_MM = 130"

definition COLOR_SAMPLES :: nat where "COLOR_SAMPLES = 8"
definition SAMPLE_DELAY_MS :: int where "SAMPLE_DELAY_MS = 20"
definition MIN_VALUE_SUM :: int where "MIN_VALUE_SUM = 40"

definition WHITE_COOLDOWN :: int where "WHITE_COOLDOWN = 2000"

subsection \<open>Motion helpers\<close>

definition drive_forward :: "int \<Rightarrow> world \<Rightarrow> world" where
  "drive_forward speed w = emit (RunAtSpeed speed) w"

definition drive_stop :: "world \<Rightarrow> world" where
  "drive_stop w = emit Brake w"

definition steer_to :: "int \<Rightarrow> world \<Rightarrow> world" where
  "steer_to angle_deg w = emit (SteerTo angle_deg STEER_SPEED_DPS) w"

definition straighten :: "world \<Rightarrow> world" where
  "straighten w = steer_to 0 w"

definition steer_arc :: "int \<Rightarrow> rat \<Rightarrow> world \<Rightarrow> world" where
  "steer_arc angle_deg hold_s w = straighten (emit (Sleep hold_s) (steer_to angle_deg w))"

definition probe_to :: "int \<Rightarrow> int \<Rightarrow> world \<Rightarrow> world" where
  "probe_to angle_deg speed_dps w = emit (ProbeTo angle_deg speed_dps) w"

definition probe_down :: "world \<Rightarrow> world" where
  "probe_down w = probe_to PROBE_DOWN_DEG PROBE_SPEED w"

definition probe_up :: "world \<Rightarrow> world" where
  "probe_up w = probe_to PROBE_UP_DEG PROBE_SPEED w"

section \<open>Colour classification\<close>

text \<open>
  The source computes the hue in floating point. The model computes it in exact rational
  arithmetic; \<open>py_mod\<close> is Python's \<^verbatim>\<open>%\<close> for a positive modulus. The window bounds are
  integers (Python's integer \<^verbatim>\<open>%\<close> agrees with \<open>mod\<close> on \<open>int\<close> for the modulus 360), and
  comparing a hue with them is exact in both readings.
\<close>

datatype color = Red | Green | Magenta | White

definition py_mod :: "rat \<Rightarrow> rat \<Rightarrow> rat" where
  "py_mod x m = x - m * of_int \<lfloor>x / m\<rfloor>"

definition hue_from_rgb :: "int \<Rightarrow> int \<Rightarrow> int \<Rightarrow> rat option" where
  "hue_from_rgb r g b =
     (let r' = of_int r / 100; g' = of_int g / 100; b' = of_int b / 100;
          mx = max r' (max g' b'); mn = min r' (min g' b');
          d = mx - mn
      in if d = 0 then None
         else Some (60 * (if mx = r' then py_mod ((g' - b') / d) 6
                          else if mx = g' then ((b' - r') / d) + 2
                          else ((r' - g') / d) + 4)))"

fun in_window :: "rat option \<Rightarrow> int \<Rightarrow> int \<Rightarrow> bool" where
  "in_window None center win = False"
| "in_window (Some h) center win =
     (let lo = (center - win) mod 360; hi = (center + win) mod 360
      in if lo \<le> hi then of_int lo \<le> h \<and> h \<le> of_int hi
         else (h \<ge> of_int lo \<or> h \<le> of_int hi))"

text \<open>The body of \<^verbatim>\<open>classify_once\<close> after the sample is read; \<open>None\<close> is Python's \<^verbatim>\<open>None\<close>.\<close>

fun classify :: "int \<times> int \<times> int \<Rightarrow> color option" where
  "classify (r, g, b) =
     (if r + g + b < MIN_VALUE_SUM then None
      else let h = hue_from_rgb r g b in
        if in_window h 0 20 \<or> in_window h 360 20 then Some Red
        else if in_window h 120 25 then Some Green
        else if in_window h 300 25 then Some Magenta
        else if r > 60 \<and> g > 60 \<and> b > 60
                \<and> max \<bar>r - g\<bar> (max \<bar>g - b\<bar> \<bar>r - b\<bar>) < 15 then Some White
        else None)"

definition classify_once :: "world \<Rightarrow> color option \<times> world" where
  "classify_once w = (case get_rgb w of (rgb, w1) \<Rightarrow> (classify rgb, w1))"

text \<open>The test of \<^verbatim>\<open>see_white_marker\<close> on the sample read.\<close>

fun see_white :: "int \<times> int \<times> int \<Rightarrow> bool" where
  "see_white (r, g, b) =
     (r > 60 \<and> g > 60 \<and> b > 60 \<and> max \<bar>r - g\<bar> (max \<bar>g - b\<bar> \<bar>r - b\<bar>) < 15)"

definition see_white_marker :: "world \<Rightarrow> bool \<times> world" where
  "see_white_marker w = (case get_rgb w of (rgb, w1) \<Rightarrow> (see_white rgb, w1))"

subsection \<open>Voting\<close>

text \<open>
  \<^verbatim>\<open>counts\<close> is a dictionary with the four keys inserted in the order red, green,
  magenta, white; \<^verbatim>\<open>max(counts, key=...)\<close> walks the keys in that order and keeps the
  first key whose count is greatest. An association list keeps the order.
\<close>

type_synonym counts = "(color \<times> nat) list"

definition counts_init :: counts where
  "counts_init = [(Red, 0), (Green, 0), (Magenta, 0), (White, 0)]"

text \<open>\<^verbatim>\<open>counts[c] += 1\<close> for a key of the dictionary.\<close>

fun incr :: "color \<Rightarrow> counts \<Rightarrow> counts" where
  "incr c [] = []"
| "incr c ((k, v) # kvs) = (if k = c then (k, v + 1) # kvs else (k, v) # incr c kvs)"

text \<open>\<^verbatim>\<open>if c in counts: counts[c] += 1\<close>; \<^verbatim>\<open>None\<close> is not a key.\<close>

fun tally :: "color option \<Rightarrow> counts \<Rightarrow> counts" where
  "tally None cnt = cnt"
| "tally (Some c) cnt = (if c \<in> set (map fst cnt) then incr c cnt else cnt)"

text \<open>\<^verbatim>\<open>counts[k]\<close>; every key looked up is present, so the \<^verbatim>\<open>KeyError\<close> branch is dead.\<close>

definition count_of :: "counts \<Rightarrow> color \<Rightarrow> nat" where
  "count_of cnt k = (case map_of cnt k of Some v \<Rightarrow> v | None \<Rightarrow> 0)"

text \<open>The scan of \<^verbatim>\<open>max\<close>: a later key replaces the best one only when strictly greater.\<close>

fun max_scan :: "color \<times> nat \<Rightarrow> counts \<Rightarrow> color \<times> nat" where
  "max_scan best [] = best"
| "max_scan best (kv # kvs) = (if snd kv > snd best then max_scan kv kvs else max_scan best kvs)"

text \<open>\<^verbatim>\<open>max\<close> of an empty dictionary raises; \<open>None\<close> stands for that.\<close>

fun max_key :: "counts \<Rightarrow> color option" where
  "max_key [] = None"
| "max_key (kv # kvs) = Some (fst (max_scan kv kvs))"

fun vote_loop :: "nat \<Rightarrow> counts \<Rightarrow> world \<Rightarrow> counts \<times> world" where
  "vote_loop 0 cnt w = (cnt, w)"
| "vote_loop (Suc n) cnt w =
     (case classify_once w of (c, w1) \<Rightarrow> vote_loop n (tally c cnt) (wait_ms SAMPLE_DELAY_MS w1))"

definition vote_color :: "nat \<Rightarrow> world \<Rightarrow> color option \<times> world" where
  "vote_color samples w =
     (case vote_loop samples counts_init w of (cnt, w1) \<Rightarrow>
        (case max_key cnt of
           None \<Rightarrow> (None, w1)
         | Some winner \<Rightarrow> (if count_of cnt winner \<ge> 2 then Some winner else None, w1)))"

text \<open>The labels of the next \<open>n\<close> samples of the feed, in the order they are read.\<close>

definition next_labels :: "nat \<Rightarrow> world \<Rightarrow> color option list" where
  "next_labels n w = map (\<lambda>i. classify (read_rgb (color_in w (color_at w + i)))) [0..<n]"

section \<open>Behaviour blocks\<close>

text \<open>The four tests of the handlers, named as the situations they detect.\<close>

definition corner_right_open :: "int \<Rightarrow> int \<Rightarrow> bool" where
  "corner_right_open ud sd \<longleftrightarrow> ud < CORNER_FRONT_MM \<and> sd > CORNER_RIGHT_OPEN"

definition corner_left_failsafe :: "int \<Rightarrow> int \<Rightarrow> bool" where
  "corner_left_failsafe ud sd \<longleftrightarrow> ud < CORNER_FRONT_MM \<and> sd < CORNER_RIGHT_TIGHT"

definition wall_too_near :: "int \<Rightarrow> bool" where
  "wall_too_near sd \<longleftrightarrow> sd < WALL_TOO_NEAR_MM"

definition pillar_candidate :: "int \<Rightarrow> int \<Rightarrow> bool" where
  "pillar_candidate ud sd \<longleftrightarrow> ud < PILLAR_FRONT_MM \<and> sd > PILLAR_SIDE_CLEAR"

definition handle_cornering :: "int \<Rightarrow> int \<Rightarrow> world \<Rightarrow> bool \<times> world" where
  "handle_cornering ud sd w =
     (if corner_right_open ud sd then (True, steer_arc STEER_RIGHT_TURN TURN_90_TIME_S w)
      else if corner_left_failsafe ud sd then (True, steer_arc STEER_LEFT_TURN TURN_90_TIME_S w)
      else (False, w))"

definition handle_wall_nudge :: "int \<Rightarrow> world \<Rightarrow> bool \<times> world" where
  "handle_wall_nudge sd w =
     (if wall_too_near sd then (True, steer_arc STEER_WALL_NUDGE WALL_NUDGE_S w)
      else (False, w))"

text \<open>The reaction of \<^verbatim>\<open>handle_pillar\<close> to the vote, before driving is resumed.\<close>

definition sign_steer :: "color option \<Rightarrow> world \<Rightarrow> world" where
  "sign_steer sig w =
     (if sig = Some Green then steer_arc STEER_LEFT_SIGN SIGN_HOLD_S w
      else if sig = Some Red then steer_arc STEER_RIGHT_SIGN SIGN_HOLD_S w
      else w)"

definition inspect_pillar :: "world \<Rightarrow> world" where
  "inspect_pillar w =
     (case vote_color COLOR_SAMPLES (wait_ms 120 (probe_down (drive_stop w))) of
        (sig, w1) \<Rightarrow> drive_forward CRUISE_SPEED_DPS (sign_steer sig (probe_up w1)))"

definition handle_pillar :: "int \<Rightarrow> int \<Rightarrow> world \<Rightarrow> bool \<times> world" where
  "handle_pillar ud sd w =
     (if pillar_candidate ud sd then (True, inspect_pillar w) else (False, w))"

text \<open>The \<^verbatim>\<open>if\<close>/\<^verbatim>\<open>elif\<close>/\<^verbatim>\<open>else\<close> chain of the racing loop.\<close>

definition decide :: "int \<Rightarrow> int \<Rightarrow> world \<Rightarrow> world" where
  "decide ud sd w =
     (case handle_cornering ud sd w of
        (True, w1) \<Rightarrow> w1
      | (False, w1) \<Rightarrow>
          (case handle_wall_nudge sd w1 of
             (True, w2) \<Rightarrow> w2
           | (False, w2) \<Rightarrow> snd (handle_pillar ud sd w2)))"

subsection \<open>The decision policy as the specification words it\<close>

text \<open>
  The specification names five situations and a list of detectors tried in order, the
  first match winning. \<open>select_situation\<close> and \<open>perform\<close> follow those words; they are
  compared with \<open>decide\<close> below.
\<close>

datatype situation = CornerRightOpen | CornerLeftFailsafe | WallTooNear | PillarCandidate | NoAction

definition detectors :: "(situation \<times> (int \<Rightarrow> int \<Rightarrow> bool)) list" where
  "detectors =
     [(CornerRightOpen, corner_right_open),
      (CornerLeftFailsafe, corner_left_failsafe),
      (WallTooNear, \<lambda>ud sd. wall_too_near sd),
      (PillarCandidate, pillar_candidate)]"

fun first_match :: "(situation \<times> (int \<Rightarrow> int \<Rightarrow> bool)) list \<Rightarrow> int \<Rightarrow> int \<Rightarrow> situation" where
  "first_match [] ud sd = NoAction"
| "first_match ((s, p) # ds) ud sd = (if p ud sd then s else first_match ds ud sd)"

definition select_situation :: "int \<Rightarrow> int \<Rightarrow> situation" where
  "select_situation ud sd = first_match detectors ud sd"

fun perform :: "situation \<Rightarrow> world \<Rightarrow> world" where
  "perform CornerRightOpen w = steer_arc STEER_RIGHT_TURN TURN_90_TIME_S w"
| "perform CornerLeftFailsafe w = steer_arc STEER_LEFT_TURN TURN_90_TIME_S w"
| "perform WallTooNear w = steer_arc STEER_WALL_NUDGE WALL_NUDGE_S w"
| "perform PillarCandidate w = inspect_pillar w"
| "perform NoAction w = w"

section \<open>Lap counting and parking\<close>

record lap_state =
  laps_done :: int
  last_white_ms :: int

definition lap_init :: lap_state where
  "lap_init = \<lparr>laps_done = 0, last_white_ms = - 99999\<rparr>"

text \<open>
  The lap detection of one loop iteration; \<open>now\<close> is what \<^verbatim>\<open>ms()\<close> returns when the
  marker is seen.
\<close>

definition lap_detect :: "int \<Rightarrow> lap_state \<times> world \<Rightarrow> lap_state \<times> world" where
  "lap_detect now lw =
     (case lw of (ls, w) \<Rightarrow>
        (case see_white_marker w of (seen, w1) \<Rightarrow>
           if seen then
             (if now - last_white_ms ls > WHITE_COOLDOWN
              then (ls\<lparr>laps_done := laps_done ls + 1, last_white_ms := now\<rparr>,
                    emit (Sleep (4 / 10)) w1)
              else (ls, w1))
           else (ls, w1)))"

text \<open>One iteration of the racing loop on the two distance reads and the clock.\<close>

definition iteration :: "dist_raw \<Rightarrow> dist_raw \<Rightarrow> int \<Rightarrow> lap_state \<times> world \<Rightarrow> lap_state \<times> world" where
  "iteration fr sr now lw =
     (case lw of (ls, w) \<Rightarrow>
        (case lap_detect now (ls, decide (get_front_mm fr) (get_side_mm sr) w) of
           (ls1, w1) \<Rightarrow> (ls1, wait_ms 10 w1)))"

text \<open>
  The wait loop of \<^verbatim>\<open>do_parking\<close> has no bound: it returns \<open>None\<close> when it never leaves.
\<close>

partial_function (option) wait_magenta :: "world \<Rightarrow> world option" where
  "wait_magenta w =
     (case vote_color COLOR_SAMPLES w of (c, w1) \<Rightarrow>
        if c = Some Magenta then Some w1 else wait_magenta (wait_ms 30 w1))"

declare wait_magenta.simps [code]

definition park_enter :: "world \<Rightarrow> world" where
  "park_enter w =
     straighten (drive_stop (emit (Sleep (15 / 10)) (emit (RunAtSpeed PARK_SPEED_DPS) (steer_to 30 w))))"

definition do_parking :: "world \<Rightarrow> world option" where
  "do_parking w =
     (case wait_magenta (drive_stop w) of None \<Rightarrow> None | Some w1 \<Rightarrow> Some (park_enter w1))"

text \<open>The end of \<^verbatim>\<open>main\<close>, once three laps are counted.\<close>

definition main_after_laps :: "world \<Rightarrow> world option" where
  "main_after_laps w =
     (case do_parking w of None \<Rightarrow> None | Some w1 \<Rightarrow> Some (emit (Print ''Parked. Done.'') w1))"

text \<open>
  The world in which the \<open>k\<close>-th vote of the wait loop is taken, and that vote: each
  failed round is a vote followed by a wait of 30 ms.
\<close>

definition park_retry :: "world \<Rightarrow> world" where
  "park_retry w = wait_ms 30 (snd (vote_color COLOR_SAMPLES w))"

definition park_vote :: "world \<Rightarrow> nat \<Rightarrow> color option" where
  "park_vote w k = fst (vote_color COLOR_SAMPLES ((park_retry ^^ k) w))"

section \<open>Auxiliary notions of the statements\<close>

text \<open>
  The result of \<^verbatim>\<open>max\<close> and of the quorum test, as a function of the four tallies in
  dictionary order; \<open>vote_color\<close> is shown below to compute it.
\<close>

definition vote_outcome :: "nat \<Rightarrow> nat \<Rightarrow> nat \<Rightarrow> nat \<Rightarrow> color option" where
  "vote_outcome r g m wh =
     (if g \<le> r \<and> m \<le> r \<and> wh \<le> r then (if 2 \<le> r then Some Red else None)
      else if m \<le> g \<and> wh \<le> g then (if 2 \<le> g then Some Green else None)
      else if wh \<le> m then (if 2 \<le> m then Some Magenta else None)
      else (if 2 \<le> wh then Some White else None))"

text \<open>The place of a label in the enumeration order Red, Green, Magenta, White.\<close>

fun enum_rank :: "color \<Rightarrow> nat" where
  "enum_rank Red = 0"
| "enum_rank Green = 1"
| "enum_rank Magenta = 2"
| "enum_rank White = 3"

section \<open>Properties of the colour classifier\<close>

lemmas tunables =
  PROBE_DOWN_DEG_def PROBE_UP_DEG_def PROBE_SPEED_def STEER_SPEED_DPS_def
  STEER_RIGHT_TURN_def STEER_LEFT_TURN_def STEER_RIGHT_SIGN_def STEER_LEFT_SIGN_def
  STEER_WALL_NUDGE_def TURN_90_TIME_S_def SIGN_HOLD_S_def WALL_NUDGE_S_def
  CRUISE_SPEED_DPS_def PARK_SPEED_DPS_def CORNER_FRONT_MM_def CORNER_RIGHT_OPEN_def
  CORNER_RIGHT_TIGHT_def PILLAR_FRONT_MM_def PILLAR_SIDE_CLEAR_def WALL_TOO_NEAR_MM_def
  COLOR_SAMPLES_def SAMPLE_DELAY_MS_def MIN_VALUE_SUM_def WHITE_COOLDOWN_def

text \<open>
  C3: a sample whose channel sum is below the minimum-brightness threshold is classified
  Unknown (\<open>None\<close>), whatever the device returned to produce it; the value \<open>(0,0,0)\<close> that
  \<^verbatim>\<open>get_rgb\<close> gives on a failed read is such a sample.
\<close>

theorem classify_dark_unknown:
  assumes "read_rgb raw = (r, g, b)" and "r + g + b < MIN_VALUE_SUM"
  shows "classify (read_rgb raw) = None \<and> read_rgb None = (0, 0, 0)
         \<and> classify (0, 0, 0) = None \<and> MIN_VALUE_SUM = 40"
  using assms by (simp add: MIN_VALUE_SUM_def)

theorem classify_dark_unknown_witness:
  "read_rgb (Some (10, - 5, 12)) = (10, 0, 12) \<and> (10::int) + 0 + 12 < MIN_VALUE_SUM
   \<and> classify (read_rgb (Some (10, - 5, 12))) = None"
  using classify_dark_unknown [of "Some (10, - 5, 12)" 10 0 12]
  by (simp add: MIN_VALUE_SUM_def)

text \<open>
  C4: a window whose reduced low bound exceeds its reduced high bound spans the seam, and
  a hue belongs to it exactly when it is at or above the low bound or at or below the
  high bound; 355 and 5 degrees are both in the red window (centre 0, half-width 20).
\<close>

theorem in_window_wraparound:
  assumes "(center - win) mod 360 > (center + win) mod 360"
  shows "(in_window (Some h) center win
           \<longleftrightarrow> (h \<ge> of_int ((center - win) mod 360) \<or> h \<le> of_int ((center + win) mod 360)))
         \<and> (in_window (Some h) 0 20 \<longleftrightarrow> (h \<ge> 340 \<or> h \<le> 20))
         \<and> in_window (Some 355) 0 20 \<and> in_window (Some 5) 0 20"
  using assms by (simp add: Let_def)

theorem in_window_wraparound_witness:
  "(0 - 20) mod 360 > (0 + 20) mod (360::int)
   \<and> (in_window (Some 350) 0 20 \<longleftrightarrow> True) \<and> (in_window (Some 180) 0 20 \<longleftrightarrow> False)"
  using in_window_wraparound [of 0 20 350] in_window_wraparound [of 0 20 180]
  by simp

text \<open>
  C10: the fast marker check and the full classifier disagree on the sample (70, 62, 62):
  it passes the white test, and its hue 0 lies in the red window, which the classifier
  tests first.
\<close>

theorem marker_check_disagrees:
  "see_white (70, 62, 62) \<and> classify (70, 62, 62) = Some Red
   \<and> hue_from_rgb 70 62 62 = Some 0 \<and> in_window (Some 0) 0 20"
  by (simp add: hue_from_rgb_def py_mod_def Let_def MIN_VALUE_SUM_def)

section \<open>The vote\<close>

lemma classify_once_eq:
  "classify_once w =
     (classify (read_rgb (color_in w (color_at w))), w\<lparr>color_at := Suc (color_at w)\<rparr>)"
  by (simp add: classify_once_def get_rgb_def)

lemma next_labels_Suc:
  "next_labels (Suc n) w =
     classify (read_rgb (color_in w (color_at w)))
       # next_labels n (wait_ms t (w\<lparr>color_at := Suc (color_at w)\<rparr>))"
  by (simp add: next_labels_def wait_ms_def emit_def map_upt_Suc del: upt_Suc)

lemma length_next_labels: "length (next_labels n w) = n"
  by (simp add: next_labels_def)

text \<open>The loop reads \<open>n\<close> samples, sleeps after each, and tallies their labels.\<close>

lemma vote_loop_eq:
  "vote_loop n cnt w =
     (foldl (\<lambda>c l. tally l c) cnt (next_labels n w),
      w\<lparr>trace := trace w @ replicate n (SleepMs SAMPLE_DELAY_MS), color_at := color_at w + n\<rparr>)"
proof (induction n arbitrary: cnt w)
  case 0
  show ?case by (simp add: next_labels_def)
next
  case (Suc n)
  show ?case
    by (simp add: classify_once_eq Suc.IH next_labels_Suc [of n w SAMPLE_DELAY_MS]
        wait_ms_def emit_def)
qed

lemma tally_four:
  "tally l [(Red, a), (Green, b), (Magenta, c), (White, d)] =
     [(Red, a + (if l = Some Red then 1 else 0)), (Green, b + (if l = Some Green then 1 else 0)),
      (Magenta, c + (if l = Some Magenta then 1 else 0)),
      (White, d + (if l = Some White then 1 else 0))]"
proof (cases l)
  case None
  then show ?thesis by simp
next
  case (Some k)
  then show ?thesis by (cases k) simp_all
qed

lemma foldl_tally_four:
  "foldl (\<lambda>c l. tally l c) [(Red, a), (Green, b), (Magenta, c), (White, d)] ls =
     [(Red, a + count_list ls (Some Red)), (Green, b + count_list ls (Some Green)),
      (Magenta, c + count_list ls (Some Magenta)), (White, d + count_list ls (Some White))]"
  by (induction ls arbitrary: a b c d) (simp_all add: tally_four)

lemma vote_color_eq:
  "vote_color n w =
     (vote_outcome (count_list (next_labels n w) (Some Red))
        (count_list (next_labels n w) (Some Green))
        (count_list (next_labels n w) (Some Magenta))
        (count_list (next_labels n w) (Some White)),
      w\<lparr>trace := trace w @ replicate n (SleepMs SAMPLE_DELAY_MS), color_at := color_at w + n\<rparr>)"
  by (simp add: vote_color_def vote_loop_eq counts_init_def foldl_tally_four count_of_def
      vote_outcome_def)

lemma color_all: "(\<forall>c. P c) \<longleftrightarrow> P Red \<and> P Green \<and> P Magenta \<and> P White"
  by (metis color.exhaust)

lemma vote_outcome_Some:
  "vote_outcome r g m wh = Some c \<longleftrightarrow>
     (let t = (\<lambda>k. case k of Red \<Rightarrow> r | Green \<Rightarrow> g | Magenta \<Rightarrow> m | White \<Rightarrow> wh)
      in 2 \<le> t c \<and> (\<forall>c'. t c' \<le> t c) \<and> (\<forall>c'. enum_rank c' < enum_rank c \<longrightarrow> t c' < t c))"
  by (cases c) (auto simp add: vote_outcome_def color_all Let_def)

lemma vote_outcome_None:
  "vote_outcome r g m wh = None \<longleftrightarrow> r < 2 \<and> g < 2 \<and> m < 2 \<and> wh < 2"
  by (auto simp add: vote_outcome_def)

text \<open>
  C5: on the labels \<open>ls\<close> of the samples read, the vote returns a label exactly when its
  tally is at least 2, no tally is greater, and every label earlier in the order Red,
  Green, Magenta, White has a strictly smaller tally; it returns Unknown exactly when no
  tally reaches 2. The result is thus a function of \<open>ls\<close> alone.
\<close>

theorem vote_color_quorum_tiebreak:
  assumes "next_labels n w = ls"
  shows "(fst (vote_color n w) = Some c \<longleftrightarrow>
            2 \<le> count_list ls (Some c)
            \<and> (\<forall>c'. count_list ls (Some c') \<le> count_list ls (Some c))
            \<and> (\<forall>c'. enum_rank c' < enum_rank c
                      \<longrightarrow> count_list ls (Some c') < count_list ls (Some c)))
         \<and> (fst (vote_color n w) = None \<longleftrightarrow> (\<forall>c'. count_list ls (Some c') < 2))
         \<and> length ls = n"
proof -
  have a: "fst (vote_color n w) =
      vote_outcome (count_list ls (Some Red)) (count_list ls (Some Green))
        (count_list ls (Some Magenta)) (count_list ls (Some White))"
    using assms by (simp add: vote_color_eq)
  have b: "length ls = n"
    using assms length_next_labels by blast
  show ?thesis
    unfolding a vote_outcome_Some vote_outcome_None using b
    by (cases c) (simp_all add: color_all Let_def)
qed

lemma tie_labels:
  "next_labels 8 \<lparr>trace = [], color_in = (\<lambda>i. if even i then Some (10, 80, 10) else Some (70, 62, 62)),
                  color_at = 0\<rparr>
   = [Some Green, Some Red, Some Green, Some Red, Some Green, Some Red, Some Green, Some Red]"
  by (simp add: next_labels_def upt_rec hue_from_rgb_def py_mod_def Let_def MIN_VALUE_SUM_def)

theorem vote_color_quorum_tiebreak_witness:
  "next_labels 8 \<lparr>trace = [], color_in = (\<lambda>i. if even i then Some (10, 80, 10) else Some (70, 62, 62)),
                  color_at = 0\<rparr>
     = [Some Green, Some Red, Some Green, Some Red, Some Green, Some Red, Some Green, Some Red]
   \<and> fst (vote_color 8 \<lparr>trace = [], color_in = (\<lambda>i. if even i then Some (10, 80, 10) else Some (70, 62, 62)),
                  color_at = 0\<rparr>) = Some Red"
  using vote_color_quorum_tiebreak [OF tie_labels, of Red] tie_labels
  by (simp add: color_all)

section \<open>The decision policy\<close>

lemma steer_arc_trace:
  "steer_arc a h w =
     w\<lparr>trace := trace w @ [SteerTo a STEER_SPEED_DPS, Sleep h, SteerTo 0 STEER_SPEED_DPS]\<rparr>"
  by (simp add: steer_arc_def straighten_def steer_to_def emit_def)

lemma decide_eq_perform: "decide ud sd w = perform (select_situation ud sd) w"
  by (simp add: decide_def handle_cornering_def handle_wall_nudge_def handle_pillar_def
      select_situation_def detectors_def)

lemma select_situation_eq:
  "select_situation ud sd =
     (if corner_right_open ud sd then CornerRightOpen
      else if corner_left_failsafe ud sd then CornerLeftFailsafe
      else if wall_too_near sd then WallTooNear
      else if pillar_candidate ud sd then PillarCandidate
      else NoAction)"
  by (simp add: select_situation_def detectors_def)

text \<open>
  C1: the chain of handlers in the racing loop does what the first matching detector of
  the list CornerRightOpen, CornerLeftFailsafe, WallTooNear, PillarCandidate asks for and
  nothing else; at front 150, side 800 that is the right corner turn alone.
\<close>

theorem decide_priority_order:
  "decide ud sd w = perform (select_situation ud sd) w
   \<and> select_situation ud sd =
       (if corner_right_open ud sd then CornerRightOpen
        else if corner_left_failsafe ud sd then CornerLeftFailsafe
        else if wall_too_near sd then WallTooNear
        else if pillar_candidate ud sd then PillarCandidate
        else NoAction)
   \<and> select_situation 150 800 = CornerRightOpen
   \<and> decide 150 800 w
       = w\<lparr>trace := trace w @ [SteerTo (- 45) 600, Sleep (9 / 10), SteerTo 0 600]\<rparr>"
  by (simp add: decide_eq_perform select_situation_eq corner_right_open_def steer_arc_trace
      CORNER_FRONT_MM_def CORNER_RIGHT_OPEN_def STEER_RIGHT_TURN_def TURN_90_TIME_S_def
      STEER_SPEED_DPS_def)

text \<open>
  C2, as stated, fails: at front 150, side 800 the tests of CornerRightOpen and of
  PillarCandidate both hold.
\<close>

theorem detectors_not_exclusive_counterexample:
  "corner_right_open 150 800 \<and> pillar_candidate 150 800"
  by (simp add: corner_right_open_def pillar_candidate_def CORNER_FRONT_MM_def
      CORNER_RIGHT_OPEN_def PILLAR_FRONT_MM_def PILLAR_SIDE_CLEAR_def)

text \<open>
  C2, amended: the four pairs CornerRightOpen/CornerLeftFailsafe,
  CornerRightOpen/WallTooNear, CornerLeftFailsafe/PillarCandidate and
  WallTooNear/PillarCandidate are mutually exclusive for every pair of readings; the two
  remaining pairs overlap: CornerRightOpen implies PillarCandidate, and
  CornerLeftFailsafe and WallTooNear hold together at front 150, side 100.
\<close>

theorem detectors_overlap:
  "\<not> (corner_right_open ud sd \<and> corner_left_failsafe ud sd)
   \<and> \<not> (corner_right_open ud sd \<and> wall_too_near sd)
   \<and> \<not> (corner_left_failsafe ud sd \<and> pillar_candidate ud sd)
   \<and> \<not> (wall_too_near sd \<and> pillar_candidate ud sd)
   \<and> (corner_right_open ud sd \<longrightarrow> pillar_candidate ud sd)
   \<and> (corner_left_failsafe 150 100 \<and> wall_too_near 100)"
  by (auto simp add: corner_right_open_def corner_left_failsafe_def wall_too_near_def
      pillar_candidate_def CORNER_FRONT_MM_def CORNER_RIGHT_OPEN_def CORNER_RIGHT_TIGHT_def
      PILLAR_FRONT_MM_def PILLAR_SIDE_CLEAR_def WALL_TOO_NEAR_MM_def)

theorem detectors_overlap_witness:
  "corner_right_open 150 800 \<and> pillar_candidate 150 800 \<and> \<not> wall_too_near 800
   \<and> \<not> corner_left_failsafe 150 800"
  using detectors_overlap [of 150 800]
  by (simp add: corner_right_open_def CORNER_FRONT_MM_def CORNER_RIGHT_OPEN_def)

text \<open>
  C6: a failed distance read gives 99999, which is below none of the thresholds, so a
  failed front read triggers neither corner detector nor the pillar detector; with the
  front at the sentinel and the side at 100 the loop performs the wall nudge only.
\<close>

theorem sentinel_is_far:
  "get_front_mm GetRaises = 99999 \<and> get_front_mm GetNone = 99999 \<and> get_front_mm FirstNone = 99999
   \<and> get_side_mm GetRaises = 99999 \<and> get_side_mm GetNone = 99999 \<and> get_side_mm FirstNone = 99999
   \<and> \<not> (99999 < CORNER_FRONT_MM) \<and> \<not> (99999 < PILLAR_FRONT_MM)
   \<and> \<not> (99999 < CORNER_RIGHT_TIGHT) \<and> \<not> (99999 < WALL_TOO_NEAR_MM)
   \<and> \<not> corner_right_open (get_front_mm GetRaises) sd
   \<and> \<not> corner_left_failsafe (get_front_mm GetRaises) sd
   \<and> \<not> pillar_candidate (get_front_mm GetRaises) sd
   \<and> select_situation (get_front_mm GetRaises) 100 = WallTooNear
   \<and> select_situation 999999 100 = WallTooNear
   \<and> decide (get_front_mm GetRaises) 100 w
       = w\<lparr>trace := trace w @ [SteerTo 15 600, Sleep (2 / 10), SteerTo 0 600]\<rparr>"
  by (simp add: decide_eq_perform select_situation_eq corner_right_open_def
      corner_left_failsafe_def wall_too_near_def pillar_candidate_def steer_arc_trace
      CORNER_FRONT_MM_def CORNER_RIGHT_OPEN_def CORNER_RIGHT_TIGHT_def
      PILLAR_FRONT_MM_def PILLAR_SIDE_CLEAR_def WALL_TOO_NEAR_MM_def
      STEER_WALL_NUDGE_def WALL_NUDGE_S_def STEER_SPEED_DPS_def)

section \<open>The pillar reaction\<close>

lemma sign_steer_trace:
  "sign_steer sig w =
     w\<lparr>trace := trace w @
        (case sig of
           Some Green \<Rightarrow>
             [SteerTo STEER_LEFT_SIGN STEER_SPEED_DPS, Sleep SIGN_HOLD_S, SteerTo 0 STEER_SPEED_DPS]
         | Some Red \<Rightarrow>
             [SteerTo STEER_RIGHT_SIGN STEER_SPEED_DPS, Sleep SIGN_HOLD_S, SteerTo 0 STEER_SPEED_DPS]
         | _ \<Rightarrow> [])\<rparr>"
  by (simp add: sign_steer_def steer_arc_trace split: option.split color.split)

lemma inspect_pillar_trace:
  "inspect_pillar w =
     w\<lparr>trace := trace w @ [Brake, ProbeTo PROBE_DOWN_DEG PROBE_SPEED, SleepMs 120]
          @ replicate COLOR_SAMPLES (SleepMs SAMPLE_DELAY_MS)
          @ [ProbeTo PROBE_UP_DEG PROBE_SPEED]
          @ (case fst (vote_color COLOR_SAMPLES (wait_ms 120 (probe_down (drive_stop w)))) of
               Some Green \<Rightarrow>
                 [SteerTo STEER_LEFT_SIGN STEER_SPEED_DPS, Sleep SIGN_HOLD_S, SteerTo 0 STEER_SPEED_DPS]
             | Some Red \<Rightarrow>
                 [SteerTo STEER_RIGHT_SIGN STEER_SPEED_DPS, Sleep SIGN_HOLD_S, SteerTo 0 STEER_SPEED_DPS]
             | _ \<Rightarrow> [])
          @ [RunAtSpeed CRUISE_SPEED_DPS],
        color_at := color_at w + COLOR_SAMPLES\<rparr>"
  by (simp add: inspect_pillar_def split_beta sign_steer_trace vote_color_eq
      drive_forward_def probe_up_def probe_down_def probe_to_def drive_stop_def wait_ms_def
      emit_def)

text \<open>
  C9: when the pillar test holds, \<open>handle_pillar\<close> stops, lowers the probe, votes and
  raises the probe; then a Green vote steers to the left sign angle for the sign hold and
  straightens, a Red vote does the same to the right sign angle (the opposite of the
  left one), any other vote steers nothing; the last action is always to drive on at
  cruise speed.
\<close>

theorem handle_pillar_by_vote:
  assumes "pillar_candidate ud sd"
    and "fst (vote_color COLOR_SAMPLES (wait_ms 120 (probe_down (drive_stop w)))) = sig"
  shows "handle_pillar ud sd w =
     (True,
      w\<lparr>trace := trace w @ [Brake, ProbeTo PROBE_DOWN_DEG PROBE_SPEED, SleepMs 120]
          @ replicate COLOR_SAMPLES (SleepMs SAMPLE_DELAY_MS)
          @ [ProbeTo PROBE_UP_DEG PROBE_SPEED]
          @ (case sig of
               Some Green \<Rightarrow>
                 [SteerTo STEER_LEFT_SIGN STEER_SPEED_DPS, Sleep SIGN_HOLD_S, SteerTo 0 STEER_SPEED_DPS]
             | Some Red \<Rightarrow>
                 [SteerTo STEER_RIGHT_SIGN STEER_SPEED_DPS, Sleep SIGN_HOLD_S, SteerTo 0 STEER_SPEED_DPS]
             | _ \<Rightarrow> [])
          @ [RunAtSpeed CRUISE_SPEED_DPS],
        color_at := color_at w + COLOR_SAMPLES\<rparr>)
     \<and> STEER_RIGHT_SIGN = - STEER_LEFT_SIGN"
  using assms
  by (simp add: handle_pillar_def inspect_pillar_trace STEER_RIGHT_SIGN_def STEER_LEFT_SIGN_def)

lemma green_labels:
  "next_labels 8 \<lparr>trace = [Brake, ProbeTo 215 600, SleepMs 120],
                  color_in = (\<lambda>i. Some (10, 80, 10)), color_at = 0\<rparr>
   = [Some Green, Some Green, Some Green, Some Green, Some Green, Some Green, Some Green, Some Green]"
  by (simp add: next_labels_def upt_rec hue_from_rgb_def Let_def MIN_VALUE_SUM_def)

lemma green_vote:
  "fst (vote_color COLOR_SAMPLES (wait_ms 120 (probe_down (drive_stop
      \<lparr>trace = [], color_in = (\<lambda>i. Some (10, 80, 10)), color_at = 0\<rparr>)))) = Some Green"
  by (simp add: vote_color_eq COLOR_SAMPLES_def wait_ms_def probe_down_def probe_to_def
      drive_stop_def emit_def PROBE_DOWN_DEG_def PROBE_SPEED_def green_labels vote_outcome_def)

theorem handle_pillar_by_vote_witness:
  "pillar_candidate 220 400
   \<and> handle_pillar 220 400 \<lparr>trace = [], color_in = (\<lambda>i. Some (10, 80, 10)), color_at = 0\<rparr> =
     (True,
      \<lparr>trace = [Brake, ProbeTo 215 600, SleepMs 120, SleepMs 20, SleepMs 20, SleepMs 20, SleepMs 20,
                SleepMs 20, SleepMs 20, SleepMs 20, SleepMs 20, ProbeTo 301 600,
                SteerTo 30 600, Sleep (6 / 10), SteerTo 0 600, RunAtSpeed 400],
       color_in = (\<lambda>i. Some (10, 80, 10)), color_at = 8\<rparr>)"
proof -
  have p: "pillar_candidate 220 400"
    by (simp add: pillar_candidate_def PILLAR_FRONT_MM_def PILLAR_SIDE_CLEAR_def)
  show ?thesis
    using handle_pillar_by_vote [OF p green_vote] p
    by (simp add: COLOR_SAMPLES_def SAMPLE_DELAY_MS_def PROBE_DOWN_DEG_def PROBE_UP_DEG_def
        PROBE_SPEED_def STEER_LEFT_SIGN_def STEER_SPEED_DPS_def SIGN_HOLD_S_def
        CRUISE_SPEED_DPS_def eval_nat_numeral)
qed

section \<open>Lap counting\<close>

text \<open>
  C7: when the marker is seen, the lap count goes up by one and the time is recorded
  exactly if more than the cooldown of 2000 ms has passed since the recorded time, and the
  state is unchanged otherwise; a second detection \<open>d \<le> 2000\<close> ms after an accepted one
  (500 ms, say) changes nothing, so the two count as one lap.
\<close>

theorem lap_cooldown:
  assumes "fst (see_white_marker w)" and "fst (see_white_marker w')" and "d \<le> WHITE_COOLDOWN"
  shows "fst (lap_detect now (ls, w)) =
           (if now - last_white_ms ls > WHITE_COOLDOWN
            then ls\<lparr>laps_done := laps_done ls + 1, last_white_ms := now\<rparr> else ls)
         \<and> (now - last_white_ms ls > WHITE_COOLDOWN \<longrightarrow>
              fst (lap_detect (now + d) (fst (lap_detect now (ls, w)), w'))
                = ls\<lparr>laps_done := laps_done ls + 1, last_white_ms := now\<rparr>)
         \<and> laps_done (fst (lap_detect (now + d) (fst (lap_detect now (ls, w)), w')))
             \<le> laps_done ls + 1
         \<and> WHITE_COOLDOWN = 2000"
  using assms
  by (auto simp add: lap_detect_def split_beta WHITE_COOLDOWN_def)

lemma white_seen:
  "fst (see_white_marker \<lparr>trace = [], color_in = (\<lambda>i. Some (70, 70, 70)), color_at = k\<rparr>)"
  by (simp add: see_white_marker_def get_rgb_def)

theorem lap_cooldown_witness:
  "fst (see_white_marker \<lparr>trace = [], color_in = (\<lambda>i. Some (70, 70, 70)), color_at = 0\<rparr>)
   \<and> (500::int) \<le> WHITE_COOLDOWN \<and> 1000 - last_white_ms lap_init > WHITE_COOLDOWN
   \<and> fst (lap_detect (1000 + 500)
        (fst (lap_detect 1000
                (lap_init, \<lparr>trace = [], color_in = (\<lambda>i. Some (70, 70, 70)), color_at = 0\<rparr>)),
         \<lparr>trace = [], color_in = (\<lambda>i. Some (70, 70, 70)), color_at = 1\<rparr>))
     = \<lparr>laps_done = 1, last_white_ms = 1000\<rparr>"
proof -
  have c: "(500::int) \<le> WHITE_COOLDOWN" by (simp add: WHITE_COOLDOWN_def)
  have e: "1000 - last_white_ms lap_init > WHITE_COOLDOWN"
    by (simp add: WHITE_COOLDOWN_def lap_init_def)
  have "fst (lap_detect (1000 + 500)
        (fst (lap_detect 1000
                (lap_init, \<lparr>trace = [], color_in = (\<lambda>i. Some (70, 70, 70)), color_at = 0\<rparr>)),
         \<lparr>trace = [], color_in = (\<lambda>i. Some (70, 70, 70)), color_at = 1\<rparr>))
     = lap_init\<lparr>laps_done := laps_done lap_init + 1, last_white_ms := 1000\<rparr>"
    using lap_cooldown [OF white_seen [of 0] white_seen [of 1] c, of 1000 lap_init] e by blast
  then show ?thesis
    using c e white_seen [of 0] by (simp add: lap_init_def)
qed

section \<open>Parking\<close>

lemma park_vote_0: "park_vote w 0 = fst (vote_color COLOR_SAMPLES w)"
  by (simp add: park_vote_def)

lemma park_vote_Suc: "park_vote w (Suc k) = park_vote (park_retry w) k"
  by (simp add: park_vote_def funpow_swap1)

text \<open>The wait loop returns only after a round whose vote is Magenta.\<close>

lemma wait_magenta_Some_vote:
  assumes "wait_magenta w0 = Some y0"
  shows "\<exists>k. park_vote w0 k = Some Magenta"
proof (rule wait_magenta.raw_induct
    [where P = "\<lambda>w y. \<exists>k. park_vote w k = Some Magenta", OF _ assms])
  fix f :: "world \<Rightarrow> world option" and w y
  assume IH: "\<And>x z. f x = Some z \<Longrightarrow> \<exists>k. park_vote x k = Some Magenta"
    and eq: "(case vote_color COLOR_SAMPLES w of
                (c, w1) \<Rightarrow> if c = Some Magenta then Some w1 else f (wait_ms 30 w1)) = Some y"
  show "\<exists>k. park_vote w k = Some Magenta"
  proof (cases "fst (vote_color COLOR_SAMPLES w) = Some Magenta")
    case True
    then have "park_vote w 0 = Some Magenta" by (simp add: park_vote_0)
    then show ?thesis by blast
  next
    case False
    with eq have "f (park_retry w) = Some y"
      by (simp add: split_beta park_retry_def)
    then obtain k where "park_vote (park_retry w) k = Some Magenta"
      using IH by blast
    then have "park_vote w (Suc k) = Some Magenta" by (simp add: park_vote_Suc)
    then show ?thesis by blast
  qed
qed

text \<open>And it does return at the first round whose vote is Magenta.\<close>

lemma wait_magenta_returns:
  "park_vote w k = Some Magenta \<Longrightarrow> (\<forall>j<k. park_vote w j \<noteq> Some Magenta) \<Longrightarrow>
   wait_magenta w = Some (snd (vote_color COLOR_SAMPLES ((park_retry ^^ k) w)))"
proof (induction k arbitrary: w)
  case 0
  then show ?case
    by (subst wait_magenta.simps) (simp add: park_vote_0 split_beta)
next
  case (Suc k)
  have first: "fst (vote_color COLOR_SAMPLES w) \<noteq> Some Magenta"
    using Suc.prems(2) [rule_format, of 0] by (simp add: park_vote_0)
  have later: "\<forall>j<k. park_vote (park_retry w) j \<noteq> Some Magenta"
    using Suc.prems(2) by (auto simp add: park_vote_Suc [symmetric])
  have "wait_magenta (park_retry w)
          = Some (snd (vote_color COLOR_SAMPLES ((park_retry ^^ k) (park_retry w))))"
    using Suc.IH [of "park_retry w"] Suc.prems(1) later by (simp add: park_vote_Suc)
  then show ?case
    using first by (subst wait_magenta.simps) (simp add: split_beta park_retry_def funpow_swap1)
qed

lemma do_parking_returns:
  "park_vote (drive_stop w) k = Some Magenta \<Longrightarrow>
   (\<forall>j<k. park_vote (drive_stop w) j \<noteq> Some Magenta) \<Longrightarrow>
   do_parking w
     = Some (park_enter (snd (vote_color COLOR_SAMPLES ((park_retry ^^ k) (drive_stop w)))))"
  by (simp add: do_parking_def wait_magenta_returns)

text \<open>
  C8: if no vote of the wait loop is Magenta, the loop never returns: \<open>do_parking\<close> has
  no result, so the parking manoeuvre after the loop is not reached, and the program does
  not reach its end. No bound on rounds or time appears in the loop.
\<close>

theorem parking_needs_magenta:
  assumes "\<forall>k. park_vote (drive_stop w) k \<noteq> Some Magenta"
  shows "wait_magenta (drive_stop w) = None \<and> do_parking w = None \<and> main_after_laps w = None"
proof -
  have "wait_magenta (drive_stop w) = None"
  proof (cases "wait_magenta (drive_stop w)")
    case None
    then show ?thesis .
  next
    case (Some y)
    then show ?thesis using wait_magenta_Some_vote assms by blast
  qed
  then show ?thesis by (simp add: do_parking_def main_after_laps_def)
qed

lemma color_in_park_retry: "color_in ((park_retry ^^ k) w) = color_in w"
  by (induction k) (simp_all add: park_retry_def vote_color_eq wait_ms_def emit_def)

lemma vote_color_in_labels:
  assumes "fst (vote_color n w) = Some c"
  shows "Some c \<in> set (next_labels n w)"
proof -
  have "count_list (next_labels n w) (Some c) \<noteq> 0"
    using assms by (cases c) (auto simp add: vote_color_eq vote_outcome_def split: if_splits)
  then show ?thesis
    by (metis count_notin)
qed

lemma feed_never_magenta:
  assumes "\<forall>i. classify (read_rgb (color_in w i)) \<noteq> Some Magenta"
  shows "park_vote w k \<noteq> Some Magenta"
proof
  assume "park_vote w k = Some Magenta"
  then have "Some Magenta \<in> set (next_labels COLOR_SAMPLES ((park_retry ^^ k) w))"
    unfolding park_vote_def by (rule vote_color_in_labels)
  then show False
    using assms by (auto simp add: next_labels_def color_in_park_retry)
qed

theorem parking_needs_magenta_witness:
  "(\<forall>k. park_vote (drive_stop \<lparr>trace = [], color_in = (\<lambda>i. None), color_at = 0\<rparr>) k \<noteq> Some Magenta)
   \<and> main_after_laps \<lparr>trace = [], color_in = (\<lambda>i. None), color_at = 0\<rparr> = None"
proof -
  have h: "\<forall>k. park_vote (drive_stop \<lparr>trace = [], color_in = (\<lambda>i. None), color_at = 0\<rparr>) k
             \<noteq> Some Magenta"
    by (rule allI, rule feed_never_magenta) (simp add: drive_stop_def emit_def MIN_VALUE_SUM_def)
  show ?thesis
    using parking_needs_magenta [OF h] h by simp
qed

end
